theory Spec2Isabelle
  imports Complex_Main "HOL-Library.Char_ord" "HOL-Library.List_Lexorder" "HOL-Library.Product_Lexorder"
begin

section \<open>Time values and the calendar of the JavaScript \<open>Date\<close> object\<close>

text \<open>
  The server (\<open>server.js\<close>) computes every chart axis and every leaderboard window with
  the built-in \<open>Date\<close> object. A \<open>Date\<close> holds a time value: an integer count of
  milliseconds since 1970-01-01T00:00:00Z. The definitions below follow the abstract
  operations of the ECMAScript language specification (\<open>Day\<close>, \<open>TimeWithinDay\<close>,
  \<open>DaysInYear\<close>, \<open>DayFromYear\<close>, \<open>YearFromTime\<close>, \<open>MonthFromTime\<close>,
  \<open>DateFromTime\<close>, \<open>MakeDay\<close>, \<open>MakeDate\<close>, \<open>LocalTime\<close>, \<open>UTC\<close>) and the
  methods the server calls (\<open>setHours\<close>, \<open>setDate\<close>, \<open>setMonth\<close>,
  \<open>setFullYear\<close>, \<open>getDate\<close>, \<open>getMonth\<close>, \<open>getFullYear\<close>,
  \<open>toISOString\<close>, \<open>toLocaleDateString\<close>).

  Modelling decisions:
  \<^item> a time value is an unbounded \<open>int\<close>; the range limit of \<open>Date\<close>
    (\<open>\<plusminus>8.64e15\<close> ms, beyond which a \<open>Date\<close> is invalid) is not modelled;
  \<^item> the time zone of the server process is a parameter \<open>tz\<close>: a fixed offset in
    milliseconds, local time being \<open>t + tz\<close>. Zones that change their offset
    (daylight saving) are not modelled;
  \<^item> \<open>caffeineMg\<close> is a JavaScript number; it is modelled as a rational, so sums are
    exact and floating-point rounding is not modelled.
\<close>

type_synonym instant = int

definition msPerDay :: int where
  "msPerDay = 86400000"

definition Day :: "int \<Rightarrow> int" where
  "Day t = t div msPerDay"

definition TimeWithinDay :: "int \<Rightarrow> int" where
  "TimeWithinDay t = t mod msPerDay"

definition DaysInYear :: "int \<Rightarrow> int" where
  "DaysInYear y =
     (if y mod 4 \<noteq> 0 then 365
      else if y mod 100 \<noteq> 0 then 366
      else if y mod 400 \<noteq> 0 then 365
      else 366)"

definition DayFromYear :: "int \<Rightarrow> int" where
  "DayFromYear y =
     365 * (y - 1970) + (y - 1969) div 4 - (y - 1901) div 100 + (y - 1601) div 400"

text \<open>
  ECMAScript defines \<open>YearFromTime t\<close> as the largest \<open>y\<close> with
  \<open>DayFromYear y \<le> Day t\<close>. The executable form estimates the year from the mean
  length of a Gregorian year (146097 days in 400 years) and corrects the estimate by at
  most one; lemmas \<open>YearFromDay_lower\<close> and \<open>YearFromDay_upper\<close> below show that it
  meets the specification.
\<close>

definition YearFromDay :: "int \<Rightarrow> int" where
  "YearFromDay d =
     (let y0 = 1970 + (400 * d) div 146097 in
      if DayFromYear (y0 + 1) \<le> d then y0 + 1
      else if DayFromYear y0 \<le> d then y0
      else y0 - 1)"

definition YearFromTime :: "int \<Rightarrow> int" where
  "YearFromTime t = YearFromDay (Day t)"

definition InLeapYear :: "int \<Rightarrow> bool" where
  "InLeapYear t = (DaysInYear (YearFromTime t) = 366)"

definition DayWithinYear :: "int \<Rightarrow> int" where
  "DayWithinYear t = Day t - DayFromYear (YearFromTime t)"

text \<open>The day within the year on which month \<open>m\<close> (0 = January) starts.\<close>

definition month_start :: "int \<Rightarrow> bool \<Rightarrow> int" where
  "month_start m leap =
     (if m = 0 then 0
      else if m = 1 then 31
      else (if leap then 1 else 0) +
        (if m = 2 then 59 else if m = 3 then 90 else if m = 4 then 120
         else if m = 5 then 151 else if m = 6 then 181 else if m = 7 then 212
         else if m = 8 then 243 else if m = 9 then 273 else if m = 10 then 304
         else 334))"

definition MonthFromTime :: "int \<Rightarrow> int" where
  "MonthFromTime t =
     (let d = DayWithinYear t; l = (if InLeapYear t then 1 else 0) in
      if d < 31 then 0
      else if d < 59 + l then 1
      else if d < 90 + l then 2
      else if d < 120 + l then 3
      else if d < 151 + l then 4
      else if d < 181 + l then 5
      else if d < 212 + l then 6
      else if d < 243 + l then 7
      else if d < 273 + l then 8
      else if d < 304 + l then 9
      else if d < 334 + l then 10
      else 11)"

definition DateFromTime :: "int \<Rightarrow> int" where
  "DateFromTime t = DayWithinYear t - month_start (MonthFromTime t) (InLeapYear t) + 1"

definition MakeDay :: "int \<Rightarrow> int \<Rightarrow> int \<Rightarrow> int" where
  "MakeDay year month date =
     (let ym = year + month div 12; mn = month mod 12 in
      DayFromYear ym + month_start mn (DaysInYear ym = 366) + date - 1)"

definition MakeTime :: "int \<Rightarrow> int \<Rightarrow> int \<Rightarrow> int \<Rightarrow> int" where
  "MakeTime hour minute sec ms = hour * 3600000 + minute * 60000 + sec * 1000 + ms"

definition MakeDate :: "int \<Rightarrow> int \<Rightarrow> int" where
  "MakeDate day time = day * msPerDay + time"

definition LocalTime :: "int \<Rightarrow> instant \<Rightarrow> int" where
  "LocalTime tz t = t + tz"

definition UTC :: "int \<Rightarrow> int \<Rightarrow> instant" where
  "UTC tz t = t - tz"

subsection \<open>The \<open>Date\<close> methods used by the server\<close>

definition getFullYear :: "int \<Rightarrow> instant \<Rightarrow> int" where
  "getFullYear tz t = YearFromTime (LocalTime tz t)"

definition getMonth :: "int \<Rightarrow> instant \<Rightarrow> int" where
  "getMonth tz t = MonthFromTime (LocalTime tz t)"

definition getDate :: "int \<Rightarrow> instant \<Rightarrow> int" where
  "getDate tz t = DateFromTime (LocalTime tz t)"

definition setHours :: "int \<Rightarrow> instant \<Rightarrow> int \<Rightarrow> int \<Rightarrow> int \<Rightarrow> int \<Rightarrow> instant" where
  "setHours tz t hour minute sec ms =
     (let lt = LocalTime tz t in
      UTC tz (MakeDate (Day lt) (MakeTime hour minute sec ms)))"

definition setDate :: "int \<Rightarrow> instant \<Rightarrow> int \<Rightarrow> instant" where
  "setDate tz t date =
     (let lt = LocalTime tz t in
      UTC tz (MakeDate (MakeDay (YearFromTime lt) (MonthFromTime lt) date)
                       (TimeWithinDay lt)))"

text \<open>\<open>setMonth\<close> with one argument keeps the day of the month; with two it sets both.\<close>

definition setMonth2 :: "int \<Rightarrow> instant \<Rightarrow> int \<Rightarrow> int \<Rightarrow> instant" where
  "setMonth2 tz t month date =
     (let lt = LocalTime tz t in
      UTC tz (MakeDate (MakeDay (YearFromTime lt) month date) (TimeWithinDay lt)))"

definition setMonth :: "int \<Rightarrow> instant \<Rightarrow> int \<Rightarrow> instant" where
  "setMonth tz t month = setMonth2 tz t month (DateFromTime (LocalTime tz t))"

definition setFullYear :: "int \<Rightarrow> instant \<Rightarrow> int \<Rightarrow> instant" where
  "setFullYear tz t year =
     (let lt = LocalTime tz t in
      UTC tz (MakeDate (MakeDay year (MonthFromTime lt) (DateFromTime lt))
                       (TimeWithinDay lt)))"

text \<open>\<open>new Date(year, month, date)\<close>: local midnight of the given calendar day. The
  constructor reads a year from 0 to 99 as a year of the twentieth century.\<close>

definition newDate :: "int \<Rightarrow> int \<Rightarrow> int \<Rightarrow> int \<Rightarrow> instant" where
  "newDate tz year month date =
     (let yr = (if 0 \<le> year \<and> year \<le> 99 then 1900 + year else year)
      in UTC tz (MakeDate (MakeDay yr month date) 0))"

subsection \<open>Facts about the calendar\<close>

lemma msPerDay_pos: "0 < msPerDay"
  by (simp add: msPerDay_def)

lemma Day_TimeWithinDay: "Day t * msPerDay + TimeWithinDay t = t"
  by (simp add: Day_def TimeWithinDay_def)


lemma div_add1_int:
  fixes a k :: int
  assumes "1 < k"
  shows "(a + 1) div k = a div k + (if (a + 1) mod k = 0 then 1 else 0)"
proof -
  have k: "0 < k" "k \<noteq> 0" using assms by simp_all
  have split: "a + 1 = (a mod k + 1) + (a div k) * k" by simp
  have d: "(a + 1) div k = a div k + (a mod k + 1) div k"
    by (subst split, subst div_mult_self1 [OF k(2)]) simp
  have m: "(a + 1) mod k = (a mod k + 1) mod k"
    by (subst split, subst mod_mult_self1) simp
  have b: "0 \<le> a mod k" "a mod k < k" using k by simp_all
  show ?thesis
  proof (cases "a mod k + 1 = k")
    case True
    then show ?thesis using d m k by simp
  next
    case False
    then have "a mod k + 1 < k" using b by linarith
    then have "(a mod k + 1) div k = 0" "(a mod k + 1) mod k = a mod k + 1"
      using b by simp_all
    then show ?thesis using d m b by simp
  qed
qed

lemma mod_shift_4: "(y - 1969 + 1) mod 4 = y mod 4" for y :: int
proof -
  have "y - 1969 + 1 = y + (- 492) * 4" by simp
  then show ?thesis by (metis mod_mult_self1)
qed

lemma mod_shift_100: "(y - 1901 + 1) mod 100 = y mod 100" for y :: int
proof -
  have "y - 1901 + 1 = y + (- 19) * 100" by simp
  then show ?thesis by (metis mod_mult_self1)
qed

lemma mod_shift_400: "(y - 1601 + 1) mod 400 = y mod 400" for y :: int
proof -
  have "y - 1601 + 1 = y + (- 4) * 400" by simp
  then show ?thesis by (metis mod_mult_self1)
qed

lemma mod_400_100: "y mod 400 = 0 \<Longrightarrow> y mod 100 = 0" for y :: int
proof -
  assume "y mod 400 = 0"
  then have "400 dvd y" by (simp add: dvd_eq_mod_eq_0)
  moreover have "(100::int) dvd 400" by simp
  ultimately have "100 dvd y" by (rule dvd_trans [rotated])
  then show ?thesis by (simp add: dvd_eq_mod_eq_0)
qed

lemma mod_100_4: "y mod 100 = 0 \<Longrightarrow> y mod 4 = 0" for y :: int
proof -
  assume "y mod 100 = 0"
  then have "100 dvd y" by (simp add: dvd_eq_mod_eq_0)
  moreover have "(4::int) dvd 100" by simp
  ultimately have "4 dvd y" by (rule dvd_trans [rotated])
  then show ?thesis by (simp add: dvd_eq_mod_eq_0)
qed

lemma DayFromYear_Suc: "DayFromYear (y + 1) = DayFromYear y + DaysInYear y"
proof -
  have s: "y + 1 - 1969 = y - 1969 + 1" "y + 1 - 1901 = y - 1901 + 1"
    "y + 1 - 1601 = y - 1601 + 1" by simp_all
  have a: "(y + 1 - 1969) div 4 = (y - 1969) div 4 + (if y mod 4 = 0 then 1 else 0)"
    unfolding s(1) using div_add1_int [of 4 "y - 1969"] unfolding mod_shift_4 by simp
  have b: "(y + 1 - 1901) div 100 = (y - 1901) div 100 + (if y mod 100 = 0 then 1 else 0)"
    unfolding s(2) using div_add1_int [of 100 "y - 1901"] unfolding mod_shift_100 by simp
  have c: "(y + 1 - 1601) div 400 = (y - 1601) div 400 + (if y mod 400 = 0 then 1 else 0)"
    unfolding s(3) using div_add1_int [of 400 "y - 1601"] unfolding mod_shift_400 by simp
  show ?thesis
    unfolding DayFromYear_def DaysInYear_def a b c
    using mod_400_100 [of y] mod_100_4 [of y] by auto
qed

lemma DaysInYear_bounds: "365 \<le> DaysInYear y" "DaysInYear y \<le> 366"
  by (simp_all add: DaysInYear_def)

lemma DayFromYear_less: "DayFromYear y < DayFromYear (y + 1)"
  using DaysInYear_bounds(1) [of y] by (simp add: DayFromYear_Suc)

lemma DayFromYear_mono_nat: "DayFromYear y + 365 * int n \<le> DayFromYear (y + int n)"
proof (induction n)
  case 0
  show ?case by simp
next
  case (Suc n)
  have "y + int (Suc n) = y + int n + 1" by simp
  then have "DayFromYear (y + int (Suc n)) = DayFromYear (y + int n) + DaysInYear (y + int n)"
    by (simp only: DayFromYear_Suc)
  then show ?case using Suc DaysInYear_bounds(1) [of "y + int n"] by simp
qed

lemma DayFromYear_mono: "y \<le> z \<Longrightarrow> DayFromYear y + 365 * (z - y) \<le> DayFromYear z"
  using DayFromYear_mono_nat [of y "nat (z - y)"] by simp

lemma DayFromYear_strict_mono: "y < z \<Longrightarrow> DayFromYear y < DayFromYear z"
  using DayFromYear_mono [of y z] by simp








lemma MonthFromTime_range: "0 \<le> MonthFromTime t" "MonthFromTime t \<le> 11"
  by (simp_all add: MonthFromTime_def Let_def)

lemma month_start_mono: "0 \<le> m \<Longrightarrow> m < 11 \<Longrightarrow> month_start m l < month_start (m + 1) l"
proof -
  assume "0 \<le> m" "m < 11"
  then have "m = 0 \<or> m = 1 \<or> m = 2 \<or> m = 3 \<or> m = 4 \<or> m = 5 \<or> m = 6 \<or> m = 7
             \<or> m = 8 \<or> m = 9 \<or> m = 10" by presburger
  then show ?thesis by (auto simp: month_start_def)
qed


lemma month_start_leap: "month_start m False \<le> month_start m l" "month_start m l \<le> month_start m False + 1"
  by (simp_all add: month_start_def)

text \<open>The calendar fields of a time value determine its day: \<open>MakeDay\<close> inverts
  \<open>YearFromTime\<close>, \<open>MonthFromTime\<close> and \<open>DateFromTime\<close>.\<close>

lemma MakeDay_fields:
  "MakeDay (YearFromTime t) (MonthFromTime t) date = Day t + (date - DateFromTime t)"
proof -
  have "MonthFromTime t div 12 = 0" "MonthFromTime t mod 12 = MonthFromTime t"
    using MonthFromTime_range [of t] by simp_all
  then show ?thesis
    by (simp add: MakeDay_def Let_def DateFromTime_def DayWithinYear_def InLeapYear_def)
qed

lemma MakeDate_Day: "MakeDate (Day t + n) (TimeWithinDay t) = t + n * msPerDay"
  using Day_TimeWithinDay [of t] by (simp add: MakeDate_def algebra_simps)

lemma setDate_getDate: "setDate tz t (getDate tz t + n) = t + n * msPerDay"
  by (simp add: setDate_def getDate_def Let_def MakeDay_fields MakeDate_Day LocalTime_def UTC_def)



lemma MakeDate_ge:
  assumes "Day t + 1 \<le> d"
  shows "t < MakeDate d (TimeWithinDay t)"
proof -
  have "(Day t + 1) * msPerDay \<le> d * msPerDay"
    using assms msPerDay_pos by (simp add: mult_right_mono)
  then have "t + msPerDay \<le> MakeDate d (TimeWithinDay t)"
    using Day_TimeWithinDay [of t] by (simp add: MakeDate_def algebra_simps)
  then show ?thesis using msPerDay_pos by linarith
qed

lemma MakeDay_next_month:
  "Day t + 1 \<le> MakeDay (YearFromTime t) (MonthFromTime t + 1) (DateFromTime t)"
proof (cases "MonthFromTime t = 11")
  case True
  have "month_start 11 (InLeapYear t) \<le> 335" by (simp add: month_start_def)
  then show ?thesis
    using True DaysInYear_bounds(1) [of "YearFromTime t"]
    by (simp add: MakeDay_def Let_def DayFromYear_Suc DateFromTime_def DayWithinYear_def
        month_start_def)
next
  case False
  then have r: "0 \<le> MonthFromTime t" "MonthFromTime t < 11"
    using MonthFromTime_range [of t] by simp_all
  then have "(MonthFromTime t + 1) div 12 = 0"
    "(MonthFromTime t + 1) mod 12 = MonthFromTime t + 1" by simp_all
  then show ?thesis
    using month_start_mono [OF r, of "InLeapYear t"]
    by (simp add: MakeDay_def Let_def DateFromTime_def DayWithinYear_def InLeapYear_def)
qed

lemma MakeDay_next_year:
  "Day t + 1 \<le> MakeDay (YearFromTime t + 1) (MonthFromTime t) (DateFromTime t)"
proof -
  have m: "MonthFromTime t div 12 = 0" "MonthFromTime t mod 12 = MonthFromTime t"
    using MonthFromTime_range [of t] by simp_all
  have "month_start (MonthFromTime t) (InLeapYear t)
          \<le> month_start (MonthFromTime t) (DaysInYear (YearFromTime t + 1) = 366) + 1"
    using month_start_leap [of "MonthFromTime t"] by (meson order_trans add_mono order_refl)
  then show ?thesis
    using DaysInYear_bounds(1) [of "YearFromTime t"]
    by (simp add: MakeDay_def Let_def m DayFromYear_Suc DateFromTime_def DayWithinYear_def)
qed

lemma setDate_next: "t < setDate tz t (getDate tz t + 1)"
  using msPerDay_pos by (simp add: setDate_getDate [of tz t 1])

lemma setMonth_next: "t < setMonth tz t (getMonth tz t + 1)"
  using MakeDate_ge [OF MakeDay_next_month, of "LocalTime tz t"]
  by (simp add: setMonth_def setMonth2_def getMonth_def Let_def UTC_def LocalTime_def)

lemma setFullYear_next: "t < setFullYear tz t (getFullYear tz t + 1)"
  using MakeDate_ge [OF MakeDay_next_year, of "LocalTime tz t"]
  by (simp add: setFullYear_def getFullYear_def Let_def UTC_def LocalTime_def)

lemma loop_measure:
  fixes d d' today :: int
  shows "d \<le> today \<Longrightarrow> d < d' \<Longrightarrow> nat (today + 1 - d') < nat (today + 1 - d)"
  by linarith

subsection \<open>Calendar fields and days\<close>













text \<open>Local midnight: \<open>setHours(0, 0, 0, 0)\<close> keeps the local day, and is the first
  instant of it.\<close>

lemma setHours_midnight: "setHours tz t 0 0 0 0 = Day (LocalTime tz t) * msPerDay - tz"
  by (simp add: setHours_def MakeDate_def MakeTime_def UTC_def)




lemma midnight_diff:
  "(setHours tz a 0 0 0 0 - setHours tz b 0 0 0 0) div msPerDay
     = Day (LocalTime tz a) - Day (LocalTime tz b)"
proof -
  have "setHours tz a 0 0 0 0 - setHours tz b 0 0 0 0
      = (Day (LocalTime tz a) - Day (LocalTime tz b)) * msPerDay"
    by (simp add: setHours_midnight algebra_simps)
  then show ?thesis using msPerDay_pos by simp
qed






section \<open>Strings\<close>

text \<open>
  Conversion of numbers to decimal strings (\<open>Number.prototype.toString\<close>, template
  literals), \<open>String.prototype.padStart\<close>, \<open>Date.prototype.toISOString\<close> and the
  three \<open>toLocaleDateString("en-US", ...)\<close> renderings the chart uses. A string is a
  list of characters.
\<close>

definition digit_char :: "nat \<Rightarrow> char" where
  "digit_char n = ''0123456789'' ! n"

fun digits :: "nat \<Rightarrow> string" where
  "digits n = (if n < 10 then [digit_char n] else digits (n div 10) @ [digit_char (n mod 10)])"

declare digits.simps [simp del]

definition number_toString :: "int \<Rightarrow> string" where
  "number_toString n = (if n < 0 then CHR ''-'' # digits (nat (- n)) else digits (nat n))"

definition padStart :: "string \<Rightarrow> nat \<Rightarrow> char \<Rightarrow> string" where
  "padStart s n c = replicate (n - length s) c @ s"

definition HourFromTime :: "int \<Rightarrow> int" where
  "HourFromTime t = (t div 3600000) mod 24"

definition MinFromTime :: "int \<Rightarrow> int" where
  "MinFromTime t = (t div 60000) mod 60"

definition SecFromTime :: "int \<Rightarrow> int" where
  "SecFromTime t = (t div 1000) mod 60"

definition msFromTime :: "int \<Rightarrow> int" where
  "msFromTime t = t mod 1000"

text \<open>The year of an ISO string has four digits, or a sign and six digits outside
  0..9999.\<close>

definition iso_year :: "int \<Rightarrow> string" where
  "iso_year y =
     (if 0 \<le> y \<and> y \<le> 9999 then padStart (digits (nat y)) 4 CHR ''0''
      else (if y < 0 then ''-'' else ''+'') @ padStart (digits (nat \<bar>y\<bar>)) 6 CHR ''0'')"

definition toISOString :: "instant \<Rightarrow> string" where
  "toISOString t =
     iso_year (YearFromTime t) @ ''-'' @
     padStart (digits (nat (MonthFromTime t + 1))) 2 CHR ''0'' @ ''-'' @
     padStart (digits (nat (DateFromTime t))) 2 CHR ''0'' @ ''T'' @
     padStart (digits (nat (HourFromTime t))) 2 CHR ''0'' @ '':'' @
     padStart (digits (nat (MinFromTime t))) 2 CHR ''0'' @ '':'' @
     padStart (digits (nat (SecFromTime t))) 2 CHR ''0'' @ ''.'' @
     padStart (digits (nat (msFromTime t))) 3 CHR ''0'' @ ''Z''"

definition month_short :: "int \<Rightarrow> string" where
  "month_short m =
     [''Jan'', ''Feb'', ''Mar'', ''Apr'', ''May'', ''Jun'',
      ''Jul'', ''Aug'', ''Sep'', ''Oct'', ''Nov'', ''Dec''] ! nat m"

text \<open>The option objects passed to \<open>toLocaleDateString\<close> by the chart route:
  \<open>{month: "short", day: "numeric"}\<close>, \<open>{month: "short"}\<close> and
  \<open>{month: "short", year: "numeric"}\<close>, rendered in the server's time zone as
  \<open>Jan 5\<close>, \<open>Jan\<close> and \<open>Jan 2024\<close>.\<close>

datatype date_options = MonthDay | MonthOnly | MonthYear

definition toLocaleDateString :: "int \<Rightarrow> instant \<Rightarrow> date_options \<Rightarrow> string" where
  "toLocaleDateString tz t opts =
     (case opts of
        MonthDay \<Rightarrow> month_short (getMonth tz t) @ '' '' @ number_toString (getDate tz t)
      | MonthOnly \<Rightarrow> month_short (getMonth tz t)
      | MonthYear \<Rightarrow> month_short (getMonth tz t) @ '' '' @ number_toString (getFullYear tz t))"

subsection \<open>Facts about the string functions\<close>
















section \<open>Strings of the requests and the documents\<close>

text \<open>
  A JavaScript string is a sequence of UTF-16 code units. The strings that clients send
  and that the documents store (names, descriptions) are lists of code units;
  \<open>js\<close> gives the code units of a string of ASCII characters. Identifiers, messages,
  keys and labels, which the program only compares or builds from ASCII characters, are
  kept as lists of characters.

  \<open>String.prototype.trim\<close> removes white space and line terminators from both ends:
  tab, line feed, vertical tab, form feed, carriage return, space, no-break space, the
  byte order mark, the line and paragraph separators and the other space separators of
  Unicode.
\<close>

type_synonym jstring = "nat list"

definition js :: "string \<Rightarrow> jstring" where
  "js s = map of_char s"

definition is_space :: "nat \<Rightarrow> bool" where
  "is_space c \<longleftrightarrow>
     c \<in> set [0x09, 0x0A, 0x0B, 0x0C, 0x0D, 0x20, 0xA0, 0x1680, 0x2028, 0x2029, 0x202F,
                0x205F, 0x3000, 0xFEFF]
     \<or> (0x2000 \<le> c \<and> c \<le> 0x200A)"

definition trim :: "jstring \<Rightarrow> jstring" where
  "trim s = rev (dropWhile is_space (rev (dropWhile is_space s)))"

subsection \<open>Facts about \<open>trim\<close>\<close>

lemma trim_Nil [simp]: "trim [] = []"
  by (simp add: trim_def)

lemma trim_no_lead: "trim s = [] \<or> \<not> is_space (hd (trim s))"
proof (cases "trim s = []")
  case False
  let ?d = "dropWhile is_space s"
  let ?r = "dropWhile is_space (rev ?d)"
  have r: "?r \<noteq> []" using False by (simp add: trim_def)
  have d: "?d \<noteq> []"
  proof
    assume "?d = []"
    then have "?r = []" by (metis dropWhile.simps(1) rev.simps(1))
    with r show False by simp
  qed
  have "\<not> is_space (hd ?d)" using hd_dropWhile [OF d] .
  moreover have "hd (rev ?r) = hd ?d"
  proof -
    obtain x xs where dx: "?d = x # xs" using d by (cases ?d) auto
    have nx: "\<not> is_space x" using hd_dropWhile [OF d] dx by simp
    have "rev ?d = rev xs @ [x]" using dx by simp
    then have "?r = dropWhile is_space (rev xs) @ [x]"
      using nx by (simp add: dropWhile_append)
    then show ?thesis using dx by simp
  qed
  ultimately show ?thesis by (simp add: trim_def)
qed simp

lemma trim_no_trail: "trim s = [] \<or> \<not> is_space (last (trim s))"
proof (cases "trim s = []")
  case False
  let ?r = "dropWhile is_space (rev (dropWhile is_space s))"
  have r: "?r \<noteq> []" using False by (simp add: trim_def)
  have "last (rev ?r) = hd ?r" using r by (simp add: last_rev)
  then show ?thesis using hd_dropWhile [OF r] by (simp add: trim_def)
qed simp

lemma trim_id:
  assumes "s = [] \<or> \<not> is_space (hd s)" and "s = [] \<or> \<not> is_space (last s)"
  shows "trim s = s"
proof (cases "s = []")
  case False
  have 1: "dropWhile is_space s = s" using assms(1) by (simp add: dropWhile_eq_self_iff)
  have "hd (rev s) = last s" using False by (simp add: hd_rev)
  then have 2: "dropWhile is_space (rev s) = rev s"
    using assms(2) False by (simp add: dropWhile_eq_self_iff)
  show ?thesis by (simp add: trim_def 1 2)
qed simp

lemma trim_trim [simp]: "trim (trim s) = trim s"
  by (rule trim_id [OF trim_no_lead trim_no_trail])

section \<open>Numbers\<close>

text \<open>
  A JavaScript number is an IEEE 754 double: a finite value, an infinity or NaN. A finite
  double is a rational \<open>m \<cdot> 2\<^sup>e\<close> with \<open>|m| < 2\<^sup>5\<^sup>3\<close> and \<open>-1074 \<le> e \<le> 971\<close>; the model
  keeps its value. The two zeros are one value (JSON prints both as \<open>0\<close>).

  Addition is exact addition followed by rounding to the nearest double, ties to the
  even mantissa: \<open>round_double\<close>. A result of magnitude \<open>2\<^sup>1\<^sup>0\<^sup>2\<^sup>4\<close> or more is an
  infinity.
\<close>

datatype number = Finite rat | PosInfinity | NegInfinity | NaN

fun bit_length :: "nat \<Rightarrow> nat" where
  "bit_length n = (if n = 0 then 0 else Suc (bit_length (n div 2)))"

declare bit_length.simps [simp del]

text \<open>\<open>floor_log2 a\<close> is the integer \<open>k\<close> with \<open>2\<^sup>k \<le> a < 2\<^sup>k\<^sup>+\<^sup>1\<close>, for \<open>a > 0\<close>.\<close>

definition floor_log2 :: "rat \<Rightarrow> int" where
  "floor_log2 a =
     (if 1 \<le> a then int (bit_length (nat \<lfloor>a\<rfloor>)) - 1
      else - int (bit_length (nat (\<lceil>1 / a\<rceil> - 1))))"

definition pow2 :: "int \<Rightarrow> rat" where
  "pow2 e = (if 0 \<le> e then 2 ^ nat e else 1 / 2 ^ nat (- e))"

definition round_half_even :: "rat \<Rightarrow> int" where
  "round_half_even y =
     (let f = \<lfloor>y\<rfloor>; d = y - of_int f
      in if d < 1 / 2 then f
         else if 1 / 2 < d then f + 1
         else if even f then f else f + 1)"

definition round_double :: "rat \<Rightarrow> number" where
  "round_double x =
     (if x = 0 then Finite 0
      else
        (let a = \<bar>x\<bar>;
             e = max (floor_log2 a - 52) (- 1074);
             r = of_int (round_half_even (a / pow2 e)) * pow2 e
         in if pow2 1024 \<le> r then (if 0 < x then PosInfinity else NegInfinity)
            else Finite (if 0 < x then r else - r)))"

text \<open>The operator \<open>+\<close> on numbers.\<close>

fun js_add :: "number \<Rightarrow> number \<Rightarrow> number" where
  "js_add NaN y = NaN"
| "js_add x NaN = NaN"
| "js_add PosInfinity NegInfinity = NaN"
| "js_add NegInfinity PosInfinity = NaN"
| "js_add PosInfinity y = PosInfinity"
| "js_add x PosInfinity = PosInfinity"
| "js_add NegInfinity y = NegInfinity"
| "js_add x NegInfinity = NegInfinity"
| "js_add (Finite a) (Finite b) = round_double (a + b)"

text \<open>Truthiness (\<open>!x\<close> holds of \<open>0\<close> and of NaN) and the comparison \<open>x <= 0\<close>.\<close>

definition falsy :: "number \<Rightarrow> bool" where
  "falsy x \<longleftrightarrow> x = Finite 0 \<or> x = NaN"

definition le_zero :: "number \<Rightarrow> bool" where
  "le_zero x \<longleftrightarrow> (case x of Finite a \<Rightarrow> a \<le> 0 | NegInfinity \<Rightarrow> True | _ \<Rightarrow> False)"

text \<open>\<open>0 <= x\<close>, the test of the schema option \<open>min: 0\<close>.\<close>

definition ge_zero :: "number \<Rightarrow> bool" where
  "ge_zero x \<longleftrightarrow> (case x of Finite a \<Rightarrow> 0 \<le> a | PosInfinity \<Rightarrow> True | _ \<Rightarrow> False)"

subsection \<open>Facts about rounding\<close>

lemma floor_numeral_quotient [simp]:
  "\<lfloor>(numeral a :: rat) / numeral b\<rfloor> = (numeral a :: int) div numeral b"
  using floor_divide_of_int_eq [of "numeral a" "numeral b", where ?'a = rat] by simp

lemma ceiling_numeral_quotient [simp]:
  "\<lceil>(numeral a :: rat) / numeral b\<rceil> = - ((- numeral a :: int) div numeral b)"
  using ceiling_divide_eq_div [of "numeral a" "numeral b", where ?'a = rat]
    floor_divide_of_int_eq [of "- numeral a" "numeral b", where ?'a = rat]
  by (simp add: ceiling_def)

lemma pow2_pos: "0 < pow2 e"
  by (simp add: pow2_def)





section \<open>Data model\<close>

text \<open>
  The documents of the collections \<open>entries\<close> and \<open>types\<close> (the mongoose schemas of
  \<open>server.js\<close>) and the user of the session. A collection is the list of its documents
  in insertion order. A query that the database cannot run because the id is malformed
  is modelled (the routes answer 500); the loss of the connection is not.
\<close>

record caffeine_entry =
  entry_id :: string
  drinkName :: jstring
  sizeName :: jstring
  fullName :: jstring
  caffeineMg :: number
  customDescription :: jstring
  timestamp :: instant
  isCustomDrink :: bool
  userId :: string
  userName :: jstring
  userAvatar :: "string option"

record session_user =
  googleId :: string
  email :: string
  displayName :: jstring
  picture :: "string option"

datatype http_error = HttpError nat string

definition requireAuth :: "session_user option \<Rightarrow> (session_user \<Rightarrow> http_error + 'a) \<Rightarrow> http_error + 'a" where
  "requireAuth session handler =
     (case session of
        None \<Rightarrow> Inl (HttpError 401 ''Authentication required'')
      | Some user \<Rightarrow> handler user)"

section \<open>The chart route \<open>GET /api/caffeine-chart\<close>\<close>

text \<open>The body \<open>{labels, values}\<close> of the answer.\<close>

record chart_body =
  chart_labels :: "string list"
  chart_values :: "number list"

datatype step = StepDay | StepMonth | StepYear

text \<open>The outcome of the \<open>switch (period)\<close>: the route either answers at once, or goes
  on with \<open>startDate\<close>, \<open>labelFormatter\<close> and \<open>step\<close> set.\<close>

datatype chart_plan =
  Reply "http_error + chart_body"
| Plan instant "instant \<Rightarrow> string" step

text \<open>\<open>findOne().sort({timestamp: 1})\<close> and \<open>findOne().sort({timestamp: -1})\<close>: a document
  with the least (greatest) timestamp, none on an empty collection.\<close>

fun find_earliest :: "caffeine_entry list \<Rightarrow> caffeine_entry option" where
  "find_earliest [] = None"
| "find_earliest (e # es) =
     (case find_earliest es of
        None \<Rightarrow> Some e
      | Some m \<Rightarrow> if timestamp e \<le> timestamp m then Some e else Some m)"

fun find_latest :: "caffeine_entry list \<Rightarrow> caffeine_entry option" where
  "find_latest [] = None"
| "find_latest (e # es) =
     (case find_latest es of
        None \<Rightarrow> Some e
      | Some m \<Rightarrow> if timestamp m \<le> timestamp e then Some e else Some m)"

definition chart_switch :: "int \<Rightarrow> instant \<Rightarrow> string \<Rightarrow> caffeine_entry list \<Rightarrow> chart_plan" where
  "chart_switch tz today period store =
     (if period = ''week'' then
        Plan (setDate tz today (getDate tz today - 6))
             (\<lambda>d. toLocaleDateString tz d MonthDay) StepDay
      else if period = ''month'' then
        Plan (setDate tz today (getDate tz today - 29))
             (\<lambda>d. toLocaleDateString tz d MonthDay) StepDay
      else if period = ''year'' then
        Plan (setFullYear tz today (getFullYear tz today - 1))
             (\<lambda>d. toLocaleDateString tz d MonthOnly) StepMonth
      else if period = ''all'' then
        (case (find_earliest store, find_latest store) of
           (Some earliest, Some latest) \<Rightarrow>
             (let startDate = setHours tz (timestamp earliest) 0 0 0 0;
                  endDate = setHours tz (timestamp latest) 0 0 0 0;
                  daysSpan = (endDate - startDate) div (1000 * 60 * 60 * 24) + 1
              in if daysSpan \<le> 90 then
                   Plan startDate (\<lambda>d. toLocaleDateString tz d MonthDay) StepDay
                 else if daysSpan \<le> 18 * 30 then
                   Plan (setDate tz startDate 1)
                        (\<lambda>d. toLocaleDateString tz d MonthYear) StepMonth
                 else
                   Plan (newDate tz (getFullYear tz startDate) 0 1)
                        (\<lambda>d. number_toString (getFullYear tz d)) StepYear)
         | _ \<Rightarrow> Reply (Inr \<lparr>chart_labels = [], chart_values = []\<rparr>))
      else Reply (Inl (HttpError 400 ''Invalid period'')))"

text \<open>The key of an entry's bucket, from its timestamp (the body of \<open>entries.forEach\<close>).\<close>

definition entry_key :: "int \<Rightarrow> step \<Rightarrow> instant \<Rightarrow> string" where
  "entry_key tz st ts =
     (case st of
        StepDay \<Rightarrow> take 10 (toISOString (setHours tz ts 0 0 0 0))
      | StepMonth \<Rightarrow>
          (let d = setHours tz (setDate tz ts 1) 0 0 0 0
           in number_toString (getFullYear tz d) @ ''-'' @
              padStart (number_toString (getMonth tz d + 1)) 2 CHR ''0'')
      | StepYear \<Rightarrow>
          (let d = setHours tz (setMonth2 tz ts 0 1) 0 0 0 0
           in number_toString (getFullYear tz d)))"

text \<open>\<open>x || 0\<close> on a number that may be missing: a missing value, \<open>0\<close> and NaN are
  falsy.\<close>

definition or_zero :: "number option \<Rightarrow> number" where
  "or_zero v = (case v of None \<Rightarrow> Finite 0 | Some x \<Rightarrow> if falsy x then Finite 0 else x)"

text \<open>\<open>if (!buckets[key]) buckets[key] = 0; buckets[key] += entry.caffeineMg\<close>.\<close>

definition add_to_bucket :: "(string \<rightharpoonup> number) \<Rightarrow> string \<Rightarrow> number \<Rightarrow> (string \<rightharpoonup> number)" where
  "add_to_bucket buckets key mg =
     (let cur = or_zero (buckets key)
      in buckets(key \<mapsto> js_add cur mg))"

definition group_entries :: "int \<Rightarrow> step \<Rightarrow> caffeine_entry list \<Rightarrow> (string \<rightharpoonup> number)" where
  "group_entries tz st entries =
     foldl (\<lambda>buckets entry. add_to_bucket buckets (entry_key tz st (timestamp entry)) (caffeineMg entry))
           Map.empty entries"

text \<open>\<open>buckets[key] || 0\<close>.\<close>

definition bucket_value :: "(string \<rightharpoonup> number) \<Rightarrow> string \<Rightarrow> number" where
  "bucket_value buckets key = or_zero (buckets key)"

text \<open>The key of a bucket of the axis, from the loop variable (the three loops that build
  \<open>labels\<close> and \<open>values\<close>).\<close>

definition axis_key :: "int \<Rightarrow> step \<Rightarrow> instant \<Rightarrow> string" where
  "axis_key tz st d =
     (case st of
        StepDay \<Rightarrow> take 10 (toISOString d)
      | StepMonth \<Rightarrow>
          number_toString (getFullYear tz d) @ ''-'' @
          padStart (number_toString (getMonth tz d + 1)) 2 CHR ''0''
      | StepYear \<Rightarrow> number_toString (getFullYear tz d))"

function day_loop :: "int \<Rightarrow> (instant \<Rightarrow> string) \<Rightarrow> (string \<rightharpoonup> number) \<Rightarrow> instant \<Rightarrow> instant
    \<Rightarrow> string list \<times> number list \<Rightarrow> string list \<times> number list" where
  "day_loop tz labelFormatter buckets today d (ls, vs) =
     (if d \<le> today then
        day_loop tz labelFormatter buckets today (setDate tz d (getDate tz d + 1))
          (ls @ [labelFormatter d], vs @ [bucket_value buckets (axis_key tz StepDay d)])
      else (ls, vs))"
  by pat_completeness auto
termination
  by (relation "measure (\<lambda>(tz, f, b, today, d, acc). nat (today + 1 - d))")
     (simp_all add: loop_measure setDate_next)

function month_loop :: "int \<Rightarrow> (instant \<Rightarrow> string) \<Rightarrow> (string \<rightharpoonup> number) \<Rightarrow> instant \<Rightarrow> instant
    \<Rightarrow> string list \<times> number list \<Rightarrow> string list \<times> number list" where
  "month_loop tz labelFormatter buckets today iter (ls, vs) =
     (if iter \<le> today then
        month_loop tz labelFormatter buckets today (setMonth tz iter (getMonth tz iter + 1))
          (ls @ [labelFormatter iter], vs @ [bucket_value buckets (axis_key tz StepMonth iter)])
      else (ls, vs))"
  by pat_completeness auto
termination
  by (relation "measure (\<lambda>(tz, f, b, today, d, acc). nat (today + 1 - d))")
     (simp_all add: loop_measure setMonth_next)

function year_loop :: "int \<Rightarrow> (instant \<Rightarrow> string) \<Rightarrow> (string \<rightharpoonup> number) \<Rightarrow> instant \<Rightarrow> instant
    \<Rightarrow> string list \<times> number list \<Rightarrow> string list \<times> number list" where
  "year_loop tz labelFormatter buckets today iter (ls, vs) =
     (if iter \<le> today then
        year_loop tz labelFormatter buckets today (setFullYear tz iter (getFullYear tz iter + 1))
          (ls @ [labelFormatter iter], vs @ [bucket_value buckets (axis_key tz StepYear iter)])
      else (ls, vs))"
  by pat_completeness auto
termination
  by (relation "measure (\<lambda>(tz, f, b, today, d, acc). nat (today + 1 - d))")
     (simp_all add: loop_measure setFullYear_next)

declare day_loop.simps [simp del] month_loop.simps [simp del] year_loop.simps [simp del]

text \<open>The route. \<open>period\<close> is the query parameter (\<open>"week"\<close> when absent), \<open>now\<close>
  the instant \<open>new Date()\<close> returns while the request is served, \<open>store\<close> the
  collection of entries.\<close>

definition caffeine_chart :: "session_user option \<Rightarrow> int \<Rightarrow> instant \<Rightarrow> string option
    \<Rightarrow> caffeine_entry list \<Rightarrow> http_error + chart_body" where
  "caffeine_chart session tz now period_param store =
     requireAuth session (\<lambda>user.
       let period = (case period_param of None \<Rightarrow> ''week'' | Some p \<Rightarrow> p);
           today = setHours tz now 0 0 0 0
       in case chart_switch tz today period store of
            Reply r \<Rightarrow> r
          | Plan startDate labelFormatter st \<Rightarrow>
              (let entries = filter (\<lambda>e. startDate \<le> timestamp e \<and> timestamp e \<le> now) store;
                   buckets = group_entries tz st entries;
                   (ls, vs) =
                     (case st of
                        StepDay \<Rightarrow> day_loop tz labelFormatter buckets today startDate ([], [])
                      | StepMonth \<Rightarrow> month_loop tz labelFormatter buckets today startDate ([], [])
                      | StepYear \<Rightarrow> year_loop tz labelFormatter buckets today startDate ([], []))
               in Inr \<lparr>chart_labels = ls, chart_values = vs\<rparr>))"


subsection \<open>The axis of a chart\<close>

















subsection \<open>Evaluation on concrete requests\<close>



lemmas label_defs =
  toLocaleDateString_def month_short_def digit_char_def digits.simps number_toString_def

lemmas chart_defs =
  caffeine_chart_def requireAuth_def chart_switch_def group_entries_def entry_key_def
  axis_key_def add_to_bucket_def bucket_value_def or_zero_def falsy_def day_loop.simps
  month_loop.simps year_loop.simps



text \<open>A user and an entry for the examples.\<close>

definition demo_user :: session_user where
  "demo_user = \<lparr>googleId = ''g-1'', email = ''ann@example.org'', displayName = js ''Ann'',
                 picture = None\<rparr>"

definition demo_entry :: "string \<Rightarrow> instant \<Rightarrow> number \<Rightarrow> caffeine_entry" where
  "demo_entry uid ts mg =
     \<lparr>entry_id = ''65a1f0c2d4e5f6a7b8c9d0e1'', drinkName = js ''Coffee'', sizeName = js ''Large'',
      fullName = js ''Large Coffee'', caffeineMg = mg, customDescription = [], timestamp = ts,
      isCustomDrink = False, userId = uid, userName = js ''Ann'', userAvatar = None\<rparr>"

section \<open>Properties of the chart\<close>

subsection \<open>The keys of the buckets\<close>
















subsection \<open>The axis of days\<close>




subsection \<open>The value of a bucket\<close>












section \<open>The entry routes\<close>

text \<open>
  The JSON body of \<open>POST /api/entries\<close>. A field is absent (\<open>None\<close>) or holds a value
  of the type the client sends: a string for the names and the description, a number for
  \<open>caffeineMg\<close>, a boolean for \<open>isCustomDrink\<close>. Bodies with fields of other JSON
  types are outside the model.
\<close>

record entry_body =
  body_drinkName :: "jstring option"
  body_sizeName :: "jstring option"
  body_caffeineMg :: "number option"
  body_customDescription :: "jstring option"
  body_isCustomDrink :: "bool option"

text \<open>JavaScript truthiness: an absent field and the empty string are falsy, and so are
  the numbers 0 and NaN.\<close>

definition falsy_string :: "jstring option \<Rightarrow> bool" where
  "falsy_string v \<longleftrightarrow> (case v of None \<Rightarrow> True | Some s \<Rightarrow> s = [])"

definition falsy_number :: "number option \<Rightarrow> bool" where
  "falsy_number v \<longleftrightarrow> (case v of None \<Rightarrow> True | Some x \<Rightarrow> falsy x)"

text \<open>The validation that mongoose runs in \<open>save()\<close> for the schema of an entry: a
  required string must not be empty, \<open>caffeineMg\<close> must not be below \<open>min: 0\<close>. A
  document that fails it is not stored, and the route answers 500 from its \<open>catch\<close>.\<close>

definition entry_schema_valid :: "caffeine_entry \<Rightarrow> bool" where
  "entry_schema_valid e \<longleftrightarrow>
     drinkName e \<noteq> [] \<and> sizeName e \<noteq> [] \<and> fullName e \<noteq> [] \<and> ge_zero (caffeineMg e)
     \<and> userId e \<noteq> [] \<and> userName e \<noteq> []"

text \<open>
  \<open>POST /api/entries\<close> of \<open>server.js\<close> (the session variant). The route takes the
  session, the instant of the request (the default of \<open>timestamp\<close>), the fresh document
  id, the body and the collection; it returns the answer and the collection afterwards.
  The schema trims the strings it stores (\<open>trim: true\<close>), after the route has trimmed
  them itself.
\<close>

definition post_entry :: "session_user option \<Rightarrow> instant \<Rightarrow> string \<Rightarrow> entry_body
    \<Rightarrow> caffeine_entry list \<Rightarrow> (http_error + caffeine_entry) \<times> caffeine_entry list" where
  "post_entry session now new_id body store =
     (case session of
        None \<Rightarrow> (Inl (HttpError 401 ''Authentication required''), store)
      | Some user \<Rightarrow>
          if falsy_string (body_drinkName body) \<or> falsy_string (body_sizeName body)
             \<or> falsy_number (body_caffeineMg body) \<or> le_zero (the (body_caffeineMg body))
          then (Inl (HttpError 400
                  ''Drink name, size name, and positive caffeine amount are required''), store)
          else
            (let drink = the (body_drinkName body);
                 size = the (body_sizeName body);
                 full = size @ js '' '' @ drink;
                 newEntry = \<lparr>entry_id = new_id,
                             drinkName = trim (trim drink),
                             sizeName = trim (trim size),
                             fullName = trim (trim full),
                             caffeineMg = the (body_caffeineMg body),
                             customDescription =
                               trim (if falsy_string (body_customDescription body) then []
                                     else trim (the (body_customDescription body))),
                             timestamp = now,
                             isCustomDrink =
                               (case body_isCustomDrink body of None \<Rightarrow> False | Some b \<Rightarrow> b),
                             userId = googleId user,
                             userName = displayName user,
                             userAvatar = picture user\<rparr>
             in if entry_schema_valid newEntry
                then (Inr newEntry, store @ [newEntry])
                else (Inl (HttpError 500 ''Failed to save entry''), store)))"

text \<open>
  \<open>POST /api/entries\<close> of the variant without sessions (\<open>unnamed/part_000\<close>): the same
  validation and the same fields, without the user. Its documents have no user fields;
  the model leaves them empty.
\<close>

definition plain_schema_valid :: "caffeine_entry \<Rightarrow> bool" where
  "plain_schema_valid e \<longleftrightarrow>
     drinkName e \<noteq> [] \<and> sizeName e \<noteq> [] \<and> fullName e \<noteq> [] \<and> ge_zero (caffeineMg e)"

definition post_entry_plain :: "instant \<Rightarrow> string \<Rightarrow> entry_body
    \<Rightarrow> caffeine_entry list \<Rightarrow> (http_error + caffeine_entry) \<times> caffeine_entry list" where
  "post_entry_plain now new_id body store =
     (if falsy_string (body_drinkName body) \<or> falsy_string (body_sizeName body)
         \<or> falsy_number (body_caffeineMg body) \<or> le_zero (the (body_caffeineMg body))
      then (Inl (HttpError 400
              ''Drink name, size name, and positive caffeine amount are required''), store)
      else
        (let drink = the (body_drinkName body);
             size = the (body_sizeName body);
             full = size @ js '' '' @ drink;
             newEntry = \<lparr>entry_id = new_id,
                         drinkName = trim (trim drink),
                         sizeName = trim (trim size),
                         fullName = trim (trim full),
                         caffeineMg = the (body_caffeineMg body),
                         customDescription =
                           trim (if falsy_string (body_customDescription body) then []
                                 else trim (the (body_customDescription body))),
                         timestamp = now,
                         isCustomDrink =
                           (case body_isCustomDrink body of None \<Rightarrow> False | Some b \<Rightarrow> b),
                         userId = [],
                         userName = [],
                         userAvatar = None\<rparr>
         in if plain_schema_valid newEntry
            then (Inr newEntry, store @ [newEntry])
            else (Inl (HttpError 500 ''Failed to save entry''), store)))"

text \<open>
  \<open>DELETE /api/entries/:id\<close> of \<open>server.js\<close>: \<open>findById\<close>, the ownership check,
  \<open>findByIdAndDelete\<close>. Both queries cast the id of the request to the type of \<open>_id\<close>,
  an ObjectId, and fail with a \<open>CastError\<close> when the string is not the text of one;
  the \<open>catch\<close> of the route answers 500. Which strings the cast accepts is decided by the
  database driver: the queries take its test as the parameter \<open>valid_id\<close>. The driver
  accepts every string of 24 hexadecimal digits (\<open>object_id_hex\<close>) and no string of
  another length than 12 or 24.
\<close>

datatype db_error = CastError

definition hex_digit :: "char \<Rightarrow> bool" where
  "hex_digit c \<longleftrightarrow> c \<in> set ''0123456789abcdefABCDEF''"

definition object_id_hex :: "string \<Rightarrow> bool" where
  "object_id_hex s \<longleftrightarrow> length s = 24 \<and> list_all hex_digit s"

definition findById :: "(string \<Rightarrow> bool) \<Rightarrow> string \<Rightarrow> caffeine_entry list
    \<Rightarrow> db_error + caffeine_entry option" where
  "findById valid_id i store =
     (if valid_id i then Inr (find (\<lambda>e. entry_id e = i) store) else Inl CastError)"

fun delete_first :: "string \<Rightarrow> caffeine_entry list \<Rightarrow> caffeine_entry list" where
  "delete_first i [] = []"
| "delete_first i (e # es) = (if entry_id e = i then es else e # delete_first i es)"

definition findByIdAndDelete :: "(string \<Rightarrow> bool) \<Rightarrow> string \<Rightarrow> caffeine_entry list
    \<Rightarrow> db_error + caffeine_entry list" where
  "findByIdAndDelete valid_id i store =
     (if valid_id i then Inr (delete_first i store) else Inl CastError)"

definition delete_entry :: "(string \<Rightarrow> bool) \<Rightarrow> session_user option \<Rightarrow> string
    \<Rightarrow> caffeine_entry list \<Rightarrow> (http_error + string) \<times> caffeine_entry list" where
  "delete_entry valid_id session i store =
     (case session of
        None \<Rightarrow> (Inl (HttpError 401 ''Authentication required''), store)
      | Some user \<Rightarrow>
          (case findById valid_id i store of
             Inl err \<Rightarrow> (Inl (HttpError 500 ''Failed to delete entry''), store)
           | Inr None \<Rightarrow> (Inl (HttpError 404 ''Entry not found''), store)
           | Inr (Some entry) \<Rightarrow>
               if userId entry \<noteq> googleId user
               then (Inl (HttpError 403 ''Not authorized to delete this entry''), store)
               else (case findByIdAndDelete valid_id i store of
                       Inl err \<Rightarrow> (Inl (HttpError 500 ''Failed to delete entry''), store)
                     | Inr store' \<Rightarrow> (Inr ''Entry deleted successfully'', store'))))"

subsection \<open>Properties of the entry routes\<close>

lemma post_entry_created:
  assumes "post_entry (Some user) now new_id body store = (Inr e, store')
           \<or> post_entry_plain now new_id body store = (Inr e, store')"
  shows "\<exists>size drink mg. body_sizeName body = Some size \<and> body_drinkName body = Some drink
           \<and> body_caffeineMg body = Some mg \<and> size \<noteq> [] \<and> drink \<noteq> [] \<and> \<not> le_zero mg
           \<and> \<not> falsy mg
           \<and> sizeName e = trim size \<and> drinkName e = trim drink
           \<and> fullName e = trim (size @ js '' '' @ drink) \<and> caffeineMg e = mg
           \<and> store' = store @ [e]"
  using assms
  by (auto simp: post_entry_def post_entry_plain_def falsy_string_def falsy_number_def Let_def
           split: if_splits option.splits)


text \<open>
  Claim C7. \<open>POST /api/entries\<close> with \<open>caffeineMg\<close> absent, zero or negative (or NaN), or
  with \<open>drinkName\<close> or \<open>sizeName\<close> absent (or empty), answers 400 and stores nothing: the
  collection is the one before the request. This holds for the route of \<open>server.js\<close>
  (with a session) and for the route of the variant without sessions.
\<close>

theorem post_entry_invalid_rejected:
  assumes "body_caffeineMg body = None
           \<or> (\<exists>x. body_caffeineMg body = Some x \<and> (le_zero x \<or> x = NaN))
           \<or> falsy_string (body_drinkName body) \<or> falsy_string (body_sizeName body)"
  shows "(\<exists>msg. post_entry (Some user) now new_id body store = (Inl (HttpError 400 msg), store))
       \<and> (\<exists>msg. post_entry_plain now new_id body store = (Inl (HttpError 400 msg), store))"
  using assms
  by (auto simp: post_entry_def post_entry_plain_def falsy_number_def falsy_def)

theorem post_entry_invalid_rejected_witness:
  "(\<exists>x. body_caffeineMg \<lparr>body_drinkName = Some (js ''Coffee''), body_sizeName = Some (js ''Large''),
        body_caffeineMg = Some (Finite 0), body_customDescription = None,
        body_isCustomDrink = None\<rparr> = Some x
        \<and> le_zero x)
   \<and> (\<exists>msg. post_entry (Some demo_user) 1704628800000 ''65a1f0c2d4e5f6a7b8c9d0e2''
         \<lparr>body_drinkName = Some (js ''Coffee''), body_sizeName = Some (js ''Large''),
          body_caffeineMg = Some (Finite 0), body_customDescription = None,
          body_isCustomDrink = None\<rparr>
         [demo_entry ''g-1'' 1704103200000 (Finite 50)]
        = (Inl (HttpError 400 msg), [demo_entry ''g-1'' 1704103200000 (Finite 50)]))"
  using post_entry_invalid_rejected [of
      "\<lparr>body_drinkName = Some (js ''Coffee''), body_sizeName = Some (js ''Large''),
        body_caffeineMg = Some (Finite 0), body_customDescription = None,
        body_isCustomDrink = None\<rparr>"
      demo_user 1704628800000 "''65a1f0c2d4e5f6a7b8c9d0e2''"
      "[demo_entry ''g-1'' 1704103200000 (Finite 50)]"]
  by (simp add: le_zero_def)


lemma find_id_in: "find (\<lambda>e. entry_id e = i) store = Some e \<Longrightarrow> e \<in> set store \<and> entry_id e = i"
  by (induction store) (auto split: if_splits)

lemma delete_first_remove1:
  "find (\<lambda>e. entry_id e = i) store = Some e \<Longrightarrow> delete_first i store = remove1 e store"
proof (induction store)
  case Nil
  then show ?case by simp
next
  case (Cons x xs)
  have i: "entry_id e = i" using find_id_in [OF Cons.prems] by simp
  show ?case
  proof (cases "entry_id x = i")
    case True
    then have "x = e" using Cons.prems by simp
    then show ?thesis using True by simp
  next
    case False
    then have "find (\<lambda>e. entry_id e = i) xs = Some e" "x \<noteq> e" using Cons.prems i by auto
    then show ?thesis using False Cons.IH by simp
  qed
qed

lemma find_id_deleted:
  "distinct (map entry_id store) \<Longrightarrow> find (\<lambda>e. entry_id e = i) (delete_first i store) = None"
proof (induction store)
  case Nil
  show ?case by simp
next
  case (Cons e es)
  show ?case
  proof (cases "entry_id e = i")
    case True
    then have "i \<notin> entry_id ` set es" using Cons.prems by auto
    then have "find (\<lambda>e. entry_id e = i) es = None" by (auto simp: find_None_iff)
    then show ?thesis using True by simp
  next
    case False
    then show ?thesis using Cons by simp
  qed
qed

text \<open>
  Claim C8, as stated, fails at ``an id matching no entry returns 404'': an id that is not
  the text of an ObjectId matches no entry, and the route answers 500, not 404.
\<close>

theorem delete_entry_malformed_id_counterexample:
  "find (\<lambda>e. entry_id e = ''x'') [demo_entry ''g-1'' 1704103200000 (Finite 50)] = None
   \<and> delete_entry object_id_hex (Some demo_user) ''x''
        [demo_entry ''g-1'' 1704103200000 (Finite 50)]
      = (Inl (HttpError 500 ''Failed to delete entry''),
         [demo_entry ''g-1'' 1704103200000 (Finite 50)])"
  by (simp add: delete_entry_def findById_def object_id_hex_def demo_entry_def)

text \<open>
  Claim C8, amended. In the session variant, \<open>DELETE /api/entries/:id\<close> by an authenticated
  caller: an id that the database cannot cast answers 500 and changes nothing; a
  well-formed id that matches no entry answers 404; an entry of another user (its
  \<open>userId\<close> differs from the caller's \<open>googleId\<close>) answers 403 and the collection is
  unchanged, so the entry remains; the owner's request answers 200 and removes exactly
  that entry. Whenever the collection changes, the caller owned the entry.
\<close>

theorem delete_entry_ownership:
  "(findById valid_id i store = Inl CastError \<longrightarrow>
      delete_entry valid_id (Some user) i store
        = (Inl (HttpError 500 ''Failed to delete entry''), store))
   \<and> (findById valid_id i store = Inr None \<longrightarrow>
      delete_entry valid_id (Some user) i store = (Inl (HttpError 404 ''Entry not found''), store))
   \<and> (\<forall>e. findById valid_id i store = Inr (Some e) \<and> userId e \<noteq> googleId user \<longrightarrow>
      delete_entry valid_id (Some user) i store
        = (Inl (HttpError 403 ''Not authorized to delete this entry''), store)
      \<and> e \<in> set (snd (delete_entry valid_id (Some user) i store)))
   \<and> (\<forall>e. findById valid_id i store = Inr (Some e) \<and> userId e = googleId user \<longrightarrow>
      delete_entry valid_id (Some user) i store
        = (Inr ''Entry deleted successfully'', remove1 e store)
      \<and> (distinct (map entry_id store) \<longrightarrow>
            findById valid_id i (snd (delete_entry valid_id (Some user) i store)) = Inr None))
   \<and> (\<forall>r store'. delete_entry valid_id (Some user) i store = (r, store') \<and> store' \<noteq> store \<longrightarrow>
      (\<exists>e. findById valid_id i store = Inr (Some e) \<and> userId e = googleId user
           \<and> r = Inr ''Entry deleted successfully''))
   \<and> (findById valid_id i store = Inl CastError \<longleftrightarrow> \<not> valid_id i)"
proof -
  let ?f = "find (\<lambda>e. entry_id e = i) store"
  have p0: "findById valid_id i store = Inl CastError \<longleftrightarrow> \<not> valid_id i"
    by (simp add: findById_def)
  have p5: "findById valid_id i store = Inl CastError \<longrightarrow>
      delete_entry valid_id (Some user) i store
        = (Inl (HttpError 500 ''Failed to delete entry''), store)"
    by (simp add: delete_entry_def)
  have p1: "findById valid_id i store = Inr None \<longrightarrow>
      delete_entry valid_id (Some user) i store = (Inl (HttpError 404 ''Entry not found''), store)"
    by (simp add: delete_entry_def)
  have p2: "delete_entry valid_id (Some user) i store
        = (Inl (HttpError 403 ''Not authorized to delete this entry''), store)
      \<and> e \<in> set (snd (delete_entry valid_id (Some user) i store))"
    if h: "findById valid_id i store = Inr (Some e) \<and> userId e \<noteq> googleId user" for e
  proof -
    have "?f = Some e" using h by (simp add: findById_def split: if_splits)
    then have "e \<in> set store" using find_id_in by blast
    then show ?thesis using h by (simp add: delete_entry_def)
  qed
  have p3: "delete_entry valid_id (Some user) i store
        = (Inr ''Entry deleted successfully'', remove1 e store)
      \<and> (distinct (map entry_id store) \<longrightarrow>
            findById valid_id i (snd (delete_entry valid_id (Some user) i store)) = Inr None)"
    if h: "findById valid_id i store = Inr (Some e) \<and> userId e = googleId user" for e
  proof -
    have v: "valid_id i" and f: "?f = Some e"
      using h by (simp_all add: findById_def split: if_splits)
    have d: "delete_entry valid_id (Some user) i store
        = (Inr ''Entry deleted successfully'', remove1 e store)"
      using h v delete_first_remove1 [OF f] by (simp add: delete_entry_def findByIdAndDelete_def)
    have "findById valid_id i (remove1 e store) = Inr None" if "distinct (map entry_id store)"
      using find_id_deleted [OF that, of i] delete_first_remove1 [OF f] v
      by (simp add: findById_def)
    then show ?thesis using d by simp
  qed
  have p4: "\<exists>e. findById valid_id i store = Inr (Some e) \<and> userId e = googleId user
           \<and> r = Inr ''Entry deleted successfully''"
    if h: "delete_entry valid_id (Some user) i store = (r, store') \<and> store' \<noteq> store"
    for r store'
  proof (cases "valid_id i")
    case False
    then show ?thesis using h by (auto simp: delete_entry_def findById_def)
  next
    case True
    show ?thesis
    proof (cases ?f)
      case None
      then show ?thesis using h True by (auto simp: delete_entry_def findById_def)
    next
      case (Some e)
      then show ?thesis using h True
        by (cases "userId e = googleId user")
           (auto simp: delete_entry_def findById_def findByIdAndDelete_def)
    qed
  qed
  show ?thesis using p0 p1 p2 p3 p4 p5 by blast
qed

theorem delete_entry_ownership_witness:
  "findById object_id_hex ''65a1f0c2d4e5f6a7b8c9d0e1'' [demo_entry ''g-2'' 1704103200000 (Finite 50)]
     = Inr (Some (demo_entry ''g-2'' 1704103200000 (Finite 50)))
   \<and> userId (demo_entry ''g-2'' 1704103200000 (Finite 50)) \<noteq> googleId demo_user
   \<and> delete_entry object_id_hex (Some demo_user) ''65a1f0c2d4e5f6a7b8c9d0e1''
        [demo_entry ''g-2'' 1704103200000 (Finite 50)]
       = (Inl (HttpError 403 ''Not authorized to delete this entry''),
          [demo_entry ''g-2'' 1704103200000 (Finite 50)])
   \<and> findById object_id_hex ''65a1f0c2d4e5f6a7b8c9d0e1'' [demo_entry ''g-1'' 1704103200000 (Finite 50)]
     = Inr (Some (demo_entry ''g-1'' 1704103200000 (Finite 50)))
   \<and> userId (demo_entry ''g-1'' 1704103200000 (Finite 50)) = googleId demo_user
   \<and> delete_entry object_id_hex (Some demo_user) ''65a1f0c2d4e5f6a7b8c9d0e1''
        [demo_entry ''g-1'' 1704103200000 (Finite 50)]
       = (Inr ''Entry deleted successfully'', [])
   \<and> findById object_id_hex ''65a1f0c2d4e5f6a7b8c9d0e2'' [demo_entry ''g-1'' 1704103200000 (Finite 50)]
     = Inr None
   \<and> delete_entry object_id_hex (Some demo_user) ''65a1f0c2d4e5f6a7b8c9d0e2''
        [demo_entry ''g-1'' 1704103200000 (Finite 50)]
       = (Inl (HttpError 404 ''Entry not found''), [demo_entry ''g-1'' 1704103200000 (Finite 50)])
   \<and> findById object_id_hex ''x'' [demo_entry ''g-1'' 1704103200000 (Finite 50)] = Inl CastError
   \<and> delete_entry object_id_hex (Some demo_user) ''x''
        [demo_entry ''g-1'' 1704103200000 (Finite 50)]
       = (Inl (HttpError 500 ''Failed to delete entry''),
          [demo_entry ''g-1'' 1704103200000 (Finite 50)])"
proof -
  let ?e1 = "demo_entry ''g-1'' 1704103200000 (Finite 50)"
  let ?e2 = "demo_entry ''g-2'' 1704103200000 (Finite 50)"
  have a: "findById object_id_hex ''65a1f0c2d4e5f6a7b8c9d0e1'' [?e2] = Inr (Some ?e2)"
    "findById object_id_hex ''65a1f0c2d4e5f6a7b8c9d0e1'' [?e1] = Inr (Some ?e1)"
    "findById object_id_hex ''65a1f0c2d4e5f6a7b8c9d0e2'' [?e1] = Inr None"
    "findById object_id_hex ''x'' [?e1] = Inl CastError"
    by (simp_all add: findById_def object_id_hex_def hex_digit_def demo_entry_def)
  have b: "userId ?e2 \<noteq> googleId demo_user" "userId ?e1 = googleId demo_user"
    by (simp_all add: demo_entry_def demo_user_def)
  note t1 = delete_entry_ownership [of object_id_hex "''65a1f0c2d4e5f6a7b8c9d0e1''" "[?e2]" demo_user]
  note t2 = delete_entry_ownership [of object_id_hex "''65a1f0c2d4e5f6a7b8c9d0e1''" "[?e1]" demo_user]
  note t3 = delete_entry_ownership [of object_id_hex "''65a1f0c2d4e5f6a7b8c9d0e2''" "[?e1]" demo_user]
  note t4 = delete_entry_ownership [of object_id_hex "''x''" "[?e1]" demo_user]
  have c1: "delete_entry object_id_hex (Some demo_user) ''65a1f0c2d4e5f6a7b8c9d0e1'' [?e2]
       = (Inl (HttpError 403 ''Not authorized to delete this entry''), [?e2])"
    using t1 a(1) b(1) by blast
  have c2: "delete_entry object_id_hex (Some demo_user) ''65a1f0c2d4e5f6a7b8c9d0e1'' [?e1]
       = (Inr ''Entry deleted successfully'', remove1 ?e1 [?e1])"
    using t2 a(2) b(2) by blast
  have c3: "delete_entry object_id_hex (Some demo_user) ''65a1f0c2d4e5f6a7b8c9d0e2'' [?e1]
       = (Inl (HttpError 404 ''Entry not found''), [?e1])"
    using t3 a(3) by blast
  have c4: "delete_entry object_id_hex (Some demo_user) ''x'' [?e1]
       = (Inl (HttpError 500 ''Failed to delete entry''), [?e1])"
    using t4 a(4) by blast
  show ?thesis using a b c1 c2 c3 c4 by simp
qed


text \<open>
  Claim C9 fails in the program. The route trims each name before it stores it, but it
  builds \<open>fullName\<close> from the names as the client sent them and trims only the ends of the
  result. A \<open>sizeName\<close> with a trailing blank leaves two blanks inside \<open>fullName\<close>, which
  then differs from the stored \<open>sizeName\<close>, one blank and the stored \<open>drinkName\<close>. Both
  variants of the route do so.
\<close>

theorem fullName_not_from_stored_names:
  "post_entry (Some demo_user) 1704628800000 ''65a1f0c2d4e5f6a7b8c9d0e2''
     \<lparr>body_drinkName = Some (js ''Coffee''), body_sizeName = Some (js ''Large ''),
      body_caffeineMg = Some (Finite 95), body_customDescription = None,
      body_isCustomDrink = None\<rparr> []
   = (Inr \<lparr>entry_id = ''65a1f0c2d4e5f6a7b8c9d0e2'', drinkName = js ''Coffee'',
           sizeName = js ''Large'', fullName = js ''Large  Coffee'', caffeineMg = Finite 95,
           customDescription = [], timestamp = 1704628800000, isCustomDrink = False,
           userId = ''g-1'', userName = js ''Ann'', userAvatar = None\<rparr>,
      [\<lparr>entry_id = ''65a1f0c2d4e5f6a7b8c9d0e2'', drinkName = js ''Coffee'',
        sizeName = js ''Large'', fullName = js ''Large  Coffee'', caffeineMg = Finite 95,
        customDescription = [], timestamp = 1704628800000, isCustomDrink = False,
        userId = ''g-1'', userName = js ''Ann'', userAvatar = None\<rparr>])
   \<and> map_sum id (\<lambda>e. (sizeName e, drinkName e, fullName e))
        (fst (post_entry_plain 1704628800000 ''65a1f0c2d4e5f6a7b8c9d0e2''
          \<lparr>body_drinkName = Some (js ''Coffee''), body_sizeName = Some (js ''Large ''),
           body_caffeineMg = Some (Finite 95), body_customDescription = None,
           body_isCustomDrink = None\<rparr> []))
      = Inr (js ''Large'', js ''Coffee'', js ''Large  Coffee'')
   \<and> js ''Large  Coffee'' \<noteq> trim (js ''Large'' @ js '' '' @ js ''Coffee'')"
  by (simp add: post_entry_def post_entry_plain_def falsy_string_def falsy_number_def falsy_def
      le_zero_def ge_zero_def trim_def is_space_def js_def
      entry_schema_valid_def plain_schema_valid_def demo_user_def Let_def)

section \<open>The drink type routes\<close>

text \<open>The documents of the collection \<open>types\<close> (\<open>drinkTypeSchema\<close> of \<open>server.js\<close>, with
  the soft-delete flag \<open>deleted\<close>) and the JSON body of \<open>POST /api/types\<close>. \<open>sizes\<close> is
  absent (\<open>None\<close>, also for a value that is not an array) or an array of objects.\<close>

record size_variant =
  size_name :: jstring
  size_caffeineMg :: number

record drink_type =
  type_id :: string
  name :: jstring
  imageUrl :: jstring
  sizes :: "size_variant list"
  createdAt :: instant
  deleted :: bool

record size_body =
  body_size_name :: "jstring option"
  body_size_caffeineMg :: "number option"

record type_body =
  body_name :: "jstring option"
  body_imageUrl :: "jstring option"
  body_sizes :: "size_body list option"

text \<open>\<open>GET /api/types\<close>: \<open>DrinkType.find({ deleted: false }).sort({ name: 1 })\<close>. The
  order of the names is the lexicographic order of their code units.\<close>

definition get_types :: "session_user option \<Rightarrow> drink_type list \<Rightarrow> http_error + drink_type list" where
  "get_types session store =
     requireAuth session (\<lambda>user. Inr (sort_key name (filter (\<lambda>t. deleted t = False) store)))"

text \<open>The validation of \<open>save()\<close> for a drink type: the name and the name of every size
  are required strings, the amounts are not below \<open>min: 0\<close>.\<close>

definition type_schema_valid :: "drink_type \<Rightarrow> bool" where
  "type_schema_valid t \<longleftrightarrow>
     name t \<noteq> [] \<and> (\<forall>s \<in> set (sizes t). size_name s \<noteq> [] \<and> ge_zero (size_caffeineMg s))"

text \<open>The loop \<open>for (const size of sizes)\<close> answers 400 at the first size that lacks a name
  or a positive amount.\<close>

definition size_invalid :: "size_body \<Rightarrow> bool" where
  "size_invalid sz \<longleftrightarrow>
     falsy_string (body_size_name sz) \<or> falsy_number (body_size_caffeineMg sz)
     \<or> le_zero (the (body_size_caffeineMg sz))"

text \<open>\<open>POST /api/types\<close>. \<open>DrinkType.findOne({ name: name.trim() })\<close> looks through every
  stored document, deleted or not.\<close>

definition post_type :: "session_user option \<Rightarrow> instant \<Rightarrow> string \<Rightarrow> type_body
    \<Rightarrow> drink_type list \<Rightarrow> (http_error + drink_type) \<times> drink_type list" where
  "post_type session now new_id body store =
     (case session of
        None \<Rightarrow> (Inl (HttpError 401 ''Authentication required''), store)
      | Some user \<Rightarrow>
          if falsy_string (body_name body) \<or> body_sizes body = None \<or> the (body_sizes body) = []
          then (Inl (HttpError 400 ''Name and at least one size variant are required''), store)
          else if list_ex size_invalid (the (body_sizes body))
          then (Inl (HttpError 400
                  ''Each size must have a name and positive caffeine amount''), store)
          else
            (case find (\<lambda>t. name t = trim (the (body_name body))) store of
               Some existingType \<Rightarrow> (Inl (HttpError 400 ''Drink type already exists''), store)
             | None \<Rightarrow>
                 (let newType =
                    \<lparr>type_id = new_id,
                     name = trim (trim (the (body_name body))),
                     imageUrl =
                       trim (if falsy_string (body_imageUrl body) then js ''/images/noImage.png''
                             else trim (the (body_imageUrl body))),
                     sizes = map (\<lambda>size. \<lparr>size_name = trim (trim (the (body_size_name size))),
                                           size_caffeineMg = the (body_size_caffeineMg size)\<rparr>)
                                 (the (body_sizes body)),
                     createdAt = now,
                     deleted = False\<rparr>
                  in if type_schema_valid newType
                     then (Inr newType, store @ [newType])
                     else (Inl (HttpError 500 ''Failed to save drink type''), store))))"

text \<open>\<open>DELETE /api/types/:id\<close> of \<open>server.js\<close>: the document stays in the collection with
  \<open>deleted\<close> set. \<open>DrinkType.findById\<close> fails on an id that the database cannot cast,
  and the route answers 500.\<close>

definition findTypeById :: "(string \<Rightarrow> bool) \<Rightarrow> string \<Rightarrow> drink_type list
    \<Rightarrow> db_error + drink_type option" where
  "findTypeById valid_id i store =
     (if valid_id i then Inr (find (\<lambda>t. type_id t = i) store) else Inl CastError)"

fun mark_deleted :: "string \<Rightarrow> drink_type list \<Rightarrow> drink_type list" where
  "mark_deleted i [] = []"
| "mark_deleted i (t # ts) =
     (if type_id t = i then t\<lparr>deleted := True\<rparr> # ts else t # mark_deleted i ts)"

definition delete_type :: "(string \<Rightarrow> bool) \<Rightarrow> session_user option \<Rightarrow> string
    \<Rightarrow> drink_type list \<Rightarrow> (http_error + jstring) \<times> drink_type list" where
  "delete_type valid_id session i store =
     (case session of
        None \<Rightarrow> (Inl (HttpError 401 ''Authentication required''), store)
      | Some user \<Rightarrow>
          (case findTypeById valid_id i store of
             Inl err \<Rightarrow> (Inl (HttpError 500 ''Failed to delete drink type''), store)
           | Inr None \<Rightarrow> (Inl (HttpError 404 ''Drink type not found''), store)
           | Inr (Some drink) \<Rightarrow>
               if deleted drink
               then (Inl (HttpError 400 ''Drink type already deleted''), store)
               else (Inr (js (''Drink type '' @ [CHR 0x22]) @ name drink
                          @ js ([CHR 0x22] @ '' marked as deleted'')),
                     mark_deleted i store)))"

subsection \<open>Properties of the drink type routes\<close>

lemma mark_deleted_names: "map name (mark_deleted i store) = map name store"
  by (induction store) auto

lemma mark_deleted_ids: "map type_id (mark_deleted i store) = map type_id store"
  by (induction store) auto

lemma mark_deleted_live:
  assumes "find (\<lambda>t. type_id t = i) store = Some drink" and "distinct (map name store)"
    and "t \<in> set (mark_deleted i store)" and "name t = name drink"
  shows "deleted t"
  using assms
proof (induction store)
  case Nil
  then show ?case by simp
next
  case (Cons x xs)
  show ?case
  proof (cases "type_id x = i")
    case True
    then have d: "drink = x" using Cons.prems(1) by simp
    have "name x \<notin> name ` set xs" using Cons.prems(2) by simp
    then have "u \<in> set xs \<Longrightarrow> name u \<noteq> name x" for u by (metis imageI)
    then show ?thesis using Cons.prems(3,4) True d by auto
  next
    case False
    then have f: "find (\<lambda>t. type_id t = i) xs = Some drink" using Cons.prems(1) by simp
    then have "drink \<in> set xs" by (auto simp: find_Some_iff in_set_conv_nth)
    then have "name drink \<in> name ` set xs" by simp
    then have "name x \<noteq> name drink" using Cons.prems(2) by auto
    then have "t \<in> set (mark_deleted i xs)" using Cons.prems(3,4) False by auto
    then show ?thesis using Cons.IH [OF f] Cons.prems(2,4) by simp
  qed
qed

text \<open>The names of the stored types stay pairwise different: the routes keep this
  invariant of the collection, which holds when it is empty.\<close>

lemma post_type_distinct:
  assumes "distinct (map name store)" and "post_type session now new_id body store = (r, store')"
  shows "distinct (map name store')"
proof (cases "\<exists>t. r = Inr t")
  case True
  then obtain t where t: "r = Inr t" by blast
  then have "find (\<lambda>u. name u = trim (the (body_name body))) store = None
      \<and> name t = trim (the (body_name body)) \<and> store' = store @ [t]"
    using assms(2)
    by (auto simp: post_type_def Let_def split: option.splits if_splits)
  then have "name t \<notin> set (map name store)" "store' = store @ [t]"
    by (auto simp: find_None_iff)
  then show ?thesis using assms(1) by simp
next
  case False
  then have "store' = store"
    using assms(2)
    by (auto simp: post_type_def Let_def split: option.splits if_splits)
  then show ?thesis using assms(1) by simp
qed

lemma delete_type_distinct:
  assumes "distinct (map name store)" and "delete_type valid_id session i store = (r, store')"
  shows "distinct (map name store')"
  using assms
  by (auto simp: delete_type_def mark_deleted_names split: option.splits if_splits sum.splits)

text \<open>
  Claim C10. In the session variant, a drink type that \<open>DELETE /api/types/:id\<close> has
  soft-deleted stays in the collection with its flag set. \<open>GET /api/types\<close> leaves it
  out: its name is no longer in the answer (the names of the collection being pairwise
  different). \<open>POST /api/types\<close> still finds it: a body whose trimmed name is that name
  answers 400 and the collection is unchanged, so no document is created.
\<close>

theorem soft_deleted_type_blocks_name:
  assumes "delete_type valid_id (Some user) i store = (Inr msg, store')"
    and "distinct (map name store)"
  shows "\<exists>drink. find (\<lambda>t. type_id t = i) store = Some drink
     \<and> (\<exists>types. get_types (Some user') store' = Inr types \<and> name drink \<notin> set (map name types))
     \<and> (\<forall>body n. body_name body = Some n \<and> trim n = name drink \<longrightarrow>
           (\<exists>m. post_type (Some user'') now new_id body store' = (Inl (HttpError 400 m), store')))"
proof -
  from assms(1) obtain drink where
    f: "find (\<lambda>t. type_id t = i) store = Some drink" and s: "store' = mark_deleted i store"
    by (auto simp: delete_type_def findTypeById_def split: option.splits if_splits sum.splits)
  have "name drink \<notin> set (map name (sort_key name (filter (\<lambda>t. deleted t = False) store')))"
    using mark_deleted_live [OF f assms(2)] s by auto
  then have g: "\<exists>types. get_types (Some user') store' = Inr types \<and> name drink \<notin> set (map name types)"
    by (simp add: get_types_def requireAuth_def)
  have "drink \<in> set store" using f by (auto simp: find_Some_iff in_set_conv_nth)
  then have "name drink \<in> set (map name store')" using s by (simp add: mark_deleted_names)
  then have ex: "find (\<lambda>t. name t = name drink) store' \<noteq> None"
    by (auto simp: find_None_iff)
  have "\<exists>m. post_type (Some user'') now new_id body store' = (Inl (HttpError 400 m), store')"
    if "body_name body = Some n \<and> trim n = name drink" for body n
    using that ex by (auto simp: post_type_def)
  then show ?thesis using f g by blast
qed

definition demo_type :: drink_type where
  "demo_type = \<lparr>type_id = ''65a1f0c2d4e5f6a7b8c9d0f1'', name = js ''Cola'',
                 imageUrl = js ''/images/noImage.png'',
                 sizes = [\<lparr>size_name = js ''Can'', size_caffeineMg = Finite 34\<rparr>],
                 createdAt = 1704103200000, deleted = False\<rparr>"

theorem soft_deleted_type_blocks_name_witness:
  "delete_type object_id_hex (Some demo_user) ''65a1f0c2d4e5f6a7b8c9d0f1'' [demo_type]
     = (Inr (js (''Drink type '' @ [CHR 0x22] @ ''Cola'' @ [CHR 0x22] @ '' marked as deleted'')),
        [demo_type\<lparr>deleted := True\<rparr>])
   \<and> distinct (map name [demo_type])
   \<and> get_types (Some demo_user) [demo_type\<lparr>deleted := True\<rparr>] = Inr []
   \<and> (\<exists>m. post_type (Some demo_user) 1704628800000 ''65a1f0c2d4e5f6a7b8c9d0f2''
          \<lparr>body_name = Some (js '' Cola ''), body_imageUrl = None,
           body_sizes = Some [\<lparr>body_size_name = Some (js ''Can''),
                               body_size_caffeineMg = Some (Finite 34)\<rparr>]\<rparr>
          [demo_type\<lparr>deleted := True\<rparr>]
        = (Inl (HttpError 400 m), [demo_type\<lparr>deleted := True\<rparr>]))"
proof -
  let ?body = "\<lparr>body_name = Some (js '' Cola ''), body_imageUrl = None,
           body_sizes = Some [\<lparr>body_size_name = Some (js ''Can''),
                               body_size_caffeineMg = Some (Finite 34)\<rparr>]\<rparr>"
  have d: "delete_type object_id_hex (Some demo_user) ''65a1f0c2d4e5f6a7b8c9d0f1'' [demo_type]
     = (Inr (js (''Drink type '' @ [CHR 0x22] @ ''Cola'' @ [CHR 0x22] @ '' marked as deleted'')),
        [demo_type\<lparr>deleted := True\<rparr>])"
    by (simp add: delete_type_def findTypeById_def object_id_hex_def hex_digit_def
        demo_type_def js_def)
  have n: "distinct (map name [demo_type])" by simp
  have f: "find (\<lambda>t. type_id t = ''65a1f0c2d4e5f6a7b8c9d0f1'') [demo_type] = Some demo_type"
    by (simp add: demo_type_def)
  have t: "body_name ?body = Some (js '' Cola '') \<and> trim (js '' Cola '') = name demo_type"
    by (simp add: trim_def is_space_def demo_type_def js_def)
  from soft_deleted_type_blocks_name [OF d n, of demo_user demo_user 1704628800000
      "''65a1f0c2d4e5f6a7b8c9d0f2''"] f t
  have "\<exists>m. post_type (Some demo_user) 1704628800000 ''65a1f0c2d4e5f6a7b8c9d0f2'' ?body
          [demo_type\<lparr>deleted := True\<rparr>]
        = (Inl (HttpError 400 m), [demo_type\<lparr>deleted := True\<rparr>])"
    by auto
  moreover have "get_types (Some demo_user) [demo_type\<lparr>deleted := True\<rparr>] = Inr []"
    by (simp add: get_types_def requireAuth_def)
  ultimately show ?thesis using d n by blast
qed

section \<open>The leaderboard route \<open>GET /api/leaderboard\<close>\<close>





text \<open>The order of \<open>$sort\<close> on numbers, as a rank: NaN, then \<open>-\<infinity>\<close>, the finite numbers by
  value, \<open>+\<infinity>\<close>. \<open>{ totalCaffeine: -1 }\<close> sorts by the rank descending.\<close>

definition number_rank :: "number \<Rightarrow> int \<times> rat" where
  "number_rank x =
     (case x of NaN \<Rightarrow> (0, 0) | NegInfinity \<Rightarrow> (1, 0) | Finite a \<Rightarrow> (2, a) | PosInfinity \<Rightarrow> (3, 0))"

definition number_le :: "number \<Rightarrow> number \<Rightarrow> bool" where
  "number_le x y \<longleftrightarrow> number_rank x \<le> number_rank y"



subsection \<open>The windows and the sums of the specification\<close>





subsection \<open>Properties of the leaderboard\<close>

lemma number_le_Finite [simp]: "number_le (Finite a) (Finite b) \<longleftrightarrow> a \<le> b"
  by (auto simp: number_le_def number_rank_def less_eq_prod_def)













end
